theory Spec2Isabelle
  imports Complex_Main
begin

section \<open>The Blackjack Q-learning agent (blackjack\_agent.py)\<close>

text \<open>
  The class \<open>BlackjackAgent\<close> owns a dictionary \<open>q_table\<close> from (state, action) pairs to
  numbers, three hyperparameters and the list of actions. Its methods are embedded as
  functions that take the agent and return what the method returns, together with the
  updated agent where the method assigns to \<open>self\<close>.

  Python floats are idealised as real numbers: the arithmetic of \<open>learn\<close> below is exact.
  On the concrete inputs used further down the floating-point computation gives the float
  that Python prints as the stated value (0.1, 0.5, 4.5 and so on). Where a property depends
  on how results are rounded, \<open>learn_rounded\<close> is the same method with the rounding of every
  arithmetic operation made explicit.
\<close>

subsection \<open>Python values and errors\<close>

datatype py_error = TypeError | ValueError | IndexError

text \<open>
  The observations covered: integers, booleans, \<open>None\<close> and tuples nested over these
  (the Blackjack environment yields a tuple of player total, dealer card and usable-ace
  flag), and plain strings. For the first group \<open>str\<close> and \<open>repr\<close> coincide. Other Python
  values (floats, dictionaries, sets, objects printed with their address) are outside the
  embedding, and no statement below is about them.
\<close>

datatype pyval = PyInt int | PyBool bool | PyNone | PyTuple "pyval list"

datatype observation = Val pyval | Str string

definition digit_char :: "nat \<Rightarrow> char" where
  "digit_char d = ''0123456789'' ! (d mod 10)"

fun nat_str :: "nat \<Rightarrow> string" where
  "nat_str n = (if n < 10 then [digit_char n] else nat_str (n div 10) @ [digit_char n])"

declare nat_str.simps [simp del]

definition int_str :: "int \<Rightarrow> string" where
  "int_str i = (if i < 0 then CHR ''-'' # nat_str (nat (- i)) else nat_str (nat i))"

text \<open>\<open>', '.join\<close> over the already rendered elements.\<close>

fun join_comma :: "string list \<Rightarrow> string" where
  "join_comma [] = []"
| "join_comma [s] = s"
| "join_comma (s # t # ss) = s @ '', '' @ join_comma (t # ss)"

text \<open>\<open>repr\<close> of a tuple: a one-element tuple prints with a trailing comma.\<close>

fun py_repr :: "pyval \<Rightarrow> string" where
  "py_repr (PyInt i) = int_str i"
| "py_repr (PyBool b) = (if b then ''True'' else ''False'')"
| "py_repr PyNone = ''None''"
| "py_repr (PyTuple vs) =
     (case vs of
        [v] \<Rightarrow> ''('' @ py_repr v @ '',)''
      | _ \<Rightarrow> ''('' @ join_comma (map py_repr vs) @ '')'')"

definition py_str :: "observation \<Rightarrow> string" where
  "py_str ob = (case ob of Val v \<Rightarrow> py_repr v | Str s \<Rightarrow> s)"

text \<open>
  Python's \<open>==\<close> on these values: \<open>bool\<close> is a subclass of \<open>int\<close>, so \<open>True == 1\<close> and
  \<open>False == 0\<close>; tuples compare elementwise; values of unrelated types are unequal.
\<close>

fun py_eq_val :: "pyval \<Rightarrow> pyval \<Rightarrow> bool" where
  "py_eq_val (PyInt i) (PyInt j) = (i = j)"
| "py_eq_val (PyInt i) (PyBool c) = (i = (if c then 1 else 0))"
| "py_eq_val (PyBool b) (PyInt j) = ((if b then 1 else 0) = j)"
| "py_eq_val (PyBool b) (PyBool c) = (b = c)"
| "py_eq_val PyNone PyNone = True"
| "py_eq_val (PyTuple vs) (PyTuple ws) = list_all2 py_eq_val vs ws"
| "py_eq_val _ _ = False"

text \<open>Two values have the same type, and so do their components, position by position.\<close>

fun same_type :: "pyval \<Rightarrow> pyval \<Rightarrow> bool" where
  "same_type (PyInt i) (PyInt j) = True"
| "same_type (PyBool b) (PyBool c) = True"
| "same_type PyNone PyNone = True"
| "same_type (PyTuple vs) (PyTuple ws) = list_all2 same_type vs ws"
| "same_type _ _ = False"

fun py_eq :: "observation \<Rightarrow> observation \<Rightarrow> bool" where
  "py_eq (Val v) (Val w) = py_eq_val v w"
| "py_eq (Str s) (Str t) = (s = t)"
| "py_eq _ _ = False"

fun same_type_obs :: "observation \<Rightarrow> observation \<Rightarrow> bool" where
  "same_type_obs (Val v) (Val w) = same_type v w"
| "same_type_obs (Str s) (Str t) = True"
| "same_type_obs _ _ = False"

subsection \<open>Built-ins the agent calls\<close>

text \<open>\<open>max(iterable)\<close>: raises on an empty iterable, keeps the first maximal item.\<close>

fun py_max :: "real list \<Rightarrow> py_error + real" where
  "py_max [] = Inl ValueError"
| "py_max (x # xs) = Inr (foldl (\<lambda>m v. if v > m then v else m) x xs)"

text \<open>\<open>list.index(v)\<close>: the first position holding \<open>v\<close>, or ValueError.\<close>

fun py_index :: "real list \<Rightarrow> real \<Rightarrow> py_error + nat" where
  "py_index [] v = Inl ValueError"
| "py_index (x # xs) v =
     (if x = v then Inr 0
      else case py_index xs v of Inl e \<Rightarrow> Inl e | Inr i \<Rightarrow> Inr (Suc i))"

definition py_nth :: "'a list \<Rightarrow> nat \<Rightarrow> py_error + 'a" where
  "py_nth xs i = (if i < length xs then Inr (xs ! i) else Inl IndexError)"

text \<open>
  The random source is passed in: \<open>uniform01\<close> is what \<open>random.uniform(0, 1)\<close> would
  return and \<open>pick\<close> the index \<open>random.choice\<close> would draw, read modulo the length of
  the sequence. \<open>random.choice\<close> raises IndexError on an empty sequence.
\<close>

record rng =
  uniform01 :: real
  pick :: nat

definition py_choice :: "rng \<Rightarrow> 'a list \<Rightarrow> py_error + 'a" where
  "py_choice g xs = (if xs = [] then Inl IndexError else Inr (xs ! (pick g mod length xs)))"

subsection \<open>The agent\<close>

record agent =
  q_table :: "(string \<times> int) \<rightharpoonup> real"
  learning_rate :: real
  discount_factor :: real
  exploration_rate :: real
  actions :: "int list"

text \<open>\<open>self.q_table.get(key, 0)\<close>.\<close>

definition q_get :: "((string \<times> int) \<rightharpoonup> real) \<Rightarrow> string \<times> int \<Rightarrow> real" where
  "q_get t k = (case t k of None \<Rightarrow> 0 | Some v \<Rightarrow> v)"

text \<open>
  \<open>__init__(self)\<close> has no parameter besides \<open>self\<close>: a call that passes any argument
  raises TypeError before the body runs. The arguments of the call are given as a list of
  keyword names with their values.
\<close>

datatype config_value = Num real | ActionList "int list"

definition init :: "(string \<times> config_value) list \<Rightarrow> py_error + agent" where
  "init kwargs =
     (if kwargs \<noteq> [] then Inl TypeError
      else Inr \<lparr>q_table = Map.empty, learning_rate = 1 / 10, discount_factor = 9 / 10,
                exploration_rate = 1 / 10, actions = [0, 1]\<rparr>)"

definition get_state :: "observation \<Rightarrow> string" where
  "get_state ob = py_str ob"

definition get_best_action :: "agent \<Rightarrow> string \<Rightarrow> py_error + int" where
  "get_best_action a state =
     (let values = map (\<lambda>b. q_get (q_table a) (state, b)) (actions a) in
      case py_max values of
        Inl e \<Rightarrow> Inl e
      | Inr m \<Rightarrow> (case py_index values m of
                    Inl e \<Rightarrow> Inl e
                  | Inr i \<Rightarrow> py_nth (actions a) i))"

definition action :: "agent \<Rightarrow> observation \<Rightarrow> bool \<Rightarrow> rng \<Rightarrow> py_error + int" where
  "action a ob exploit_only g =
     (if \<not> exploit_only \<and> uniform01 g < exploration_rate a then py_choice g (actions a)
      else let state = get_state ob in get_best_action a state)"

definition learn ::
  "agent \<Rightarrow> int \<Rightarrow> observation \<Rightarrow> real \<Rightarrow> bool \<Rightarrow> observation \<Rightarrow> py_error + (agent \<times> real)" where
  "learn a act ob reward terminated next_ob =
     (let current_state = get_state ob;
          next_state = get_state next_ob;
          old_value = q_get (q_table a) (current_state, act) in
      case py_max (map (\<lambda>b. q_get (q_table a) (next_state, b)) (actions a)) of
        Inl e \<Rightarrow> Inl e
      | Inr next_max \<Rightarrow>
          (let new_value = (1 - learning_rate a) * old_value
                 + learning_rate a * (reward + discount_factor a * next_max);
               a' = a\<lparr>q_table := (q_table a)((current_state, act) \<mapsto> new_value)\<rparr>;
               error = \<bar>old_value - new_value\<bar>
           in Inr (a', error)))"

text \<open>
  The same method over floating-point numbers. A float is the real number it denotes, and
  every arithmetic operation returns the rounding \<open>rnd\<close> of its exact result, in the order in
  which Python evaluates the expression; comparisons and \<open>abs\<close> are exact. The rounding
  function is a parameter: binary64 round-to-nearest is monotone and leaves representable
  numbers unchanged, and only such properties of it are used.
\<close>

definition learn_rounded ::
  "(real \<Rightarrow> real) \<Rightarrow> agent \<Rightarrow> int \<Rightarrow> observation \<Rightarrow> real \<Rightarrow> bool \<Rightarrow> observation
     \<Rightarrow> py_error + (agent \<times> real)" where
  "learn_rounded rnd a act ob reward terminated next_ob =
     (let current_state = get_state ob;
          next_state = get_state next_ob;
          old_value = q_get (q_table a) (current_state, act) in
      case py_max (map (\<lambda>b. q_get (q_table a) (next_state, b)) (actions a)) of
        Inl e \<Rightarrow> Inl e
      | Inr next_max \<Rightarrow>
          (let new_value = rnd (rnd (rnd (1 - learning_rate a) * old_value)
                 + rnd (learning_rate a * rnd (reward + rnd (discount_factor a * next_max))));
               a' = a\<lparr>q_table := (q_table a)((current_state, act) \<mapsto> new_value)\<rparr>;
               error = \<bar>rnd (old_value - new_value)\<bar>
           in Inr (a', error)))"

subsection \<open>Sequences of calls\<close>

text \<open>
  The training loop outside the class calls \<open>action\<close> and \<open>learn\<close> in turn. A call is
  recorded with its arguments; \<open>step\<close> gives the agent after the call. \<open>action\<close>
  assigns nothing to \<open>self\<close>, and a \<open>learn\<close> that raises does so before its store.
\<close>

datatype call =
  CallAction observation bool rng
| CallLearn int observation real bool observation

fun step :: "agent \<Rightarrow> call \<Rightarrow> agent" where
  "step a (CallAction ob exploit_only g) = a"
| "step a (CallLearn act ob reward terminated next_ob) =
     (case learn a act ob reward terminated next_ob of
        Inl e \<Rightarrow> a
      | Inr (a', err) \<Rightarrow> a')"

fun run :: "agent \<Rightarrow> call list \<Rightarrow> agent" where
  "run a [] = a"
| "run a (c # cs) = run (step a c) cs"




section \<open>Properties\<close>

subsection \<open>The built-ins against their mathematical meaning\<close>

lemma foldl_max: "foldl (\<lambda>m v. if v > m then v else m) (x::real) xs = Max (insert x (set xs))"
proof (induction xs arbitrary: x)
  case Nil
  then show ?case by simp
next
  case (Cons y ys)
  have "Max (insert x (insert y (set ys))) = Max (insert (max x y) (set ys))"
  proof (cases "set ys = {}")
    case True
    then show ?thesis by simp
  next
    case False
    then show ?thesis by (simp add: max.assoc)
  qed
  moreover have "(if y > x then y else x) = max x y" by (simp add: max_def)
  ultimately show ?case using Cons.IH [of "max x y"] by simp
qed

lemma py_max_Max: "xs \<noteq> [] \<Longrightarrow> py_max xs = Inr (Max (set xs))"
  by (cases xs) (simp_all add: foldl_max)

lemma py_max_map:
  "acts \<noteq> [] \<Longrightarrow> py_max (map f acts) = Inr (Max (f ` set acts))"
  using py_max_Max [of "map f acts"] by simp

subsection \<open>The update rule\<close>

text \<open>
  C1. With at least one action configured, \<open>learn\<close> reads the old value with default 0,
  takes the maximum over all actions of the next state's values with default 0, stores the
  blend \<open>(1 - \<alpha>) * old + \<alpha> * (reward + \<gamma> * next_max)\<close> under (state, action) and returns
  the absolute change. On the worked example (\<open>\<alpha> = 0.5\<close>, \<open>\<gamma> = 0.9\<close>, B valued 0 and 10) the
  entry for (A, 1) becomes 4.5 and 4.5 is returned.
\<close>

theorem learn_update_rule:
  "(actions a \<noteq> [] \<longrightarrow>
      learn a act ob reward terminated next_ob =
        (let old = q_get (q_table a) (get_state ob, act);
             next_max = Max ((\<lambda>b. q_get (q_table a) (get_state next_ob, b)) ` set (actions a));
             new = (1 - learning_rate a) * old
                 + learning_rate a * (reward + discount_factor a * next_max)
         in Inr (a\<lparr>q_table := (q_table a)((get_state ob, act) \<mapsto> new)\<rparr>, \<bar>old - new\<bar>)))
   \<and> learn \<lparr>q_table = [(''B'', 0) \<mapsto> 0, (''B'', 1) \<mapsto> 10], learning_rate = 1 / 2,
              discount_factor = 9 / 10, exploration_rate = 0, actions = [0, 1]\<rparr>
         1 (Str ''A'') 0 False (Str ''B'')
       = Inr (\<lparr>q_table = [(''B'', 0) \<mapsto> 0, (''B'', 1) \<mapsto> 10, (''A'', 1) \<mapsto> 9 / 2],
                learning_rate = 1 / 2, discount_factor = 9 / 10, exploration_rate = 0,
                actions = [0, 1]\<rparr>, 9 / 2)"
proof (intro conjI impI)
  assume ne: "actions a \<noteq> []"
  show "learn a act ob reward terminated next_ob =
        (let old = q_get (q_table a) (get_state ob, act);
             next_max = Max ((\<lambda>b. q_get (q_table a) (get_state next_ob, b)) ` set (actions a));
             new = (1 - learning_rate a) * old
                 + learning_rate a * (reward + discount_factor a * next_max)
         in Inr (a\<lparr>q_table := (q_table a)((get_state ob, act) \<mapsto> new)\<rparr>, \<bar>old - new\<bar>))"
    by (simp add: learn_def Let_def py_max_map [OF ne])
next
  show "learn \<lparr>q_table = [(''B'', 0) \<mapsto> 0, (''B'', 1) \<mapsto> 10], learning_rate = 1 / 2,
              discount_factor = 9 / 10, exploration_rate = 0, actions = [0, 1]\<rparr>
         1 (Str ''A'') 0 False (Str ''B'')
       = Inr (\<lparr>q_table = [(''B'', 0) \<mapsto> 0, (''B'', 1) \<mapsto> 10, (''A'', 1) \<mapsto> 9 / 2],
                learning_rate = 1 / 2, discount_factor = 9 / 10, exploration_rate = 0,
                actions = [0, 1]\<rparr>, 9 / 2)"
    by (simp add: learn_def Let_def get_state_def py_str_def q_get_def)
qed

theorem learn_update_rule_witness:
  "actions \<lparr>q_table = [(''S'', 1) \<mapsto> 2], learning_rate = 1 / 2, discount_factor = 1 / 2,
            exploration_rate = 0, actions = [0, 1]\<rparr> \<noteq> []
   \<and> learn \<lparr>q_table = [(''S'', 1) \<mapsto> 2], learning_rate = 1 / 2, discount_factor = 1 / 2,
            exploration_rate = 0, actions = [0, 1]\<rparr> 1 (Str ''S'') 4 True (Str ''S'')
     = Inr (\<lparr>q_table = [(''S'', 1) \<mapsto> 7 / 2], learning_rate = 1 / 2, discount_factor = 1 / 2,
            exploration_rate = 0, actions = [0, 1]\<rparr>, 3 / 2)"
  using learn_update_rule [of "\<lparr>q_table = [(''S'', 1) \<mapsto> 2], learning_rate = 1 / 2,
            discount_factor = 1 / 2, exploration_rate = 0, actions = [0, 1]\<rparr>"
            1 "Str ''S''" 4 True "Str ''S''"]
  by (simp add: Let_def get_state_def py_str_def q_get_def)

text \<open>
  C2. The \<open>terminated\<close> argument of \<open>learn\<close> has no influence: two calls that differ
  only in it produce the same table and the same returned error (or the same exception).
\<close>

theorem learn_ignores_terminated:
  "learn a act ob reward t1 next_ob = learn a act ob reward t2 next_ob"
  by (simp add: learn_def)

subsection \<open>Greedy selection\<close>

lemma py_index_find:
  "m \<in> f ` set acts \<Longrightarrow>
   \<exists>i. py_index (map f acts) m = Inr i \<and> i < length acts
     \<and> List.find (\<lambda>b. f b = m) acts = Some (acts ! i)"
proof (induction acts)
  case Nil
  then show ?case by simp
next
  case (Cons b bs)
  show ?case
  proof (cases "f b = m")
    case True
    then show ?thesis by simp
  next
    case False
    with Cons.prems have "m \<in> f ` set bs" by auto
    from Cons.IH [OF this] obtain i where
      "py_index (map f bs) m = Inr i" "i < length bs"
      "List.find (\<lambda>b. f b = m) bs = Some (bs ! i)" by blast
    with False show ?thesis by simp
  qed
qed

lemma get_best_action_find:
  assumes ne: "actions a \<noteq> []"
  shows "\<exists>x. get_best_action a s = Inr x
     \<and> List.find (\<lambda>b. q_get (q_table a) (s, b)
                       = Max ((\<lambda>c. q_get (q_table a) (s, c)) ` set (actions a)))
          (actions a) = Some x"
proof -
  let ?f = "\<lambda>b. q_get (q_table a) (s, b)"
  let ?M = "Max (?f ` set (actions a))"
  have "?M \<in> ?f ` set (actions a)"
    using ne by (intro Max_in) simp_all
  from py_index_find [OF this] obtain i where
    i: "py_index (map ?f (actions a)) ?M = Inr i" "i < length (actions a)"
       "List.find (\<lambda>b. ?f b = ?M) (actions a) = Some (actions a ! i)" by blast
  have "get_best_action a s = Inr (actions a ! i)"
    using i by (simp add: get_best_action_def Let_def py_max_map [OF ne] py_nth_def)
  with i(3) show ?thesis by blast
qed

text \<open>
  C3. With at least one action configured, the greedy choice is the first action, in the
  order of the action list, whose table value (default 0) equals the maximum over all
  actions. For the agent as constructed, whose table is empty, \<open>action\<close> with
  \<open>exploit_only=True\<close> returns action 0 for every observation, whatever the random source.
\<close>

theorem greedy_first_maximal:
  "(actions a \<noteq> [] \<longrightarrow>
      (\<exists>x. get_best_action a s = Inr x
         \<and> List.find (\<lambda>b. q_get (q_table a) (s, b)
                           = Max ((\<lambda>c. q_get (q_table a) (s, c)) ` set (actions a)))
              (actions a) = Some x))
   \<and> (\<exists>a0. init [] = Inr a0 \<and> q_table a0 = Map.empty \<and> action a0 ob True g = Inr 0)"
proof (intro conjI impI)
  assume "actions a \<noteq> []"
  then show "\<exists>x. get_best_action a s = Inr x
         \<and> List.find (\<lambda>b. q_get (q_table a) (s, b)
                           = Max ((\<lambda>c. q_get (q_table a) (s, c)) ` set (actions a)))
              (actions a) = Some x"
    by (rule get_best_action_find)
next
  show "\<exists>a0. init [] = Inr a0 \<and> q_table a0 = Map.empty \<and> action a0 ob True g = Inr 0"
    by (simp add: init_def action_def get_best_action_def q_get_def py_nth_def)
qed

theorem greedy_first_maximal_witness:
  "actions \<lparr>q_table = [(''S'', 1) \<mapsto> 2, (''S'', 2) \<mapsto> 2], learning_rate = 1 / 2,
            discount_factor = 1 / 2, exploration_rate = 0, actions = [0, 1, 2]\<rparr> \<noteq> []
   \<and> get_best_action \<lparr>q_table = [(''S'', 1) \<mapsto> 2, (''S'', 2) \<mapsto> 2], learning_rate = 1 / 2,
            discount_factor = 1 / 2, exploration_rate = 0, actions = [0, 1, 2]\<rparr> ''S'' = Inr 1"
  using greedy_first_maximal [of "\<lparr>q_table = [(''S'', 1) \<mapsto> 2, (''S'', 2) \<mapsto> 2],
            learning_rate = 1 / 2, discount_factor = 1 / 2, exploration_rate = 0,
            actions = [0, 1, 2]\<rparr>" "''S''"]
  by (simp add: q_get_def)

subsection \<open>What one update writes\<close>

lemma learn_Inr:
  "actions a \<noteq> [] \<Longrightarrow>
   learn a act ob reward terminated next_ob
     = Inr (a\<lparr>q_table := (q_table a)((get_state ob, act) \<mapsto>
               (1 - learning_rate a) * q_get (q_table a) (get_state ob, act)
               + learning_rate a * (reward + discount_factor a
                   * Max ((\<lambda>b. q_get (q_table a) (get_state next_ob, b)) ` set (actions a))))\<rparr>,
            \<bar>q_get (q_table a) (get_state ob, act)
              - ((1 - learning_rate a) * q_get (q_table a) (get_state ob, act)
               + learning_rate a * (reward + discount_factor a
                   * Max ((\<lambda>b. q_get (q_table a) (get_state next_ob, b)) ` set (actions a))))\<bar>)"
  by (simp add: learn_def Let_def py_max_map)

lemma learn_Inl:
  "actions a = [] \<Longrightarrow> learn a act ob reward terminated next_ob = Inl ValueError"
  by (simp add: learn_def Let_def)

text \<open>
  C4, as stated, fails when the next state is the current state (in Blackjack, standing
  leaves the observation as it was): on the agent as constructed,
  \<open>learn(0, "A", 1, True, "A")\<close> creates the key (A, 0), a key of the next state that
  was not there before.
\<close>

theorem learn_frame_counterexample:
  "init [] = Inr \<lparr>q_table = Map.empty, learning_rate = 1 / 10, discount_factor = 9 / 10,
                   exploration_rate = 1 / 10, actions = [0, 1]\<rparr>
   \<and> learn \<lparr>q_table = Map.empty, learning_rate = 1 / 10, discount_factor = 9 / 10,
             exploration_rate = 1 / 10, actions = [0, 1]\<rparr> 0 (Str ''A'') 1 True (Str ''A'')
       = Inr (\<lparr>q_table = [(''A'', 0) \<mapsto> 1 / 10], learning_rate = 1 / 10,
                discount_factor = 9 / 10, exploration_rate = 1 / 10, actions = [0, 1]\<rparr>, 1 / 10)
   \<and> (get_state (Str ''A''), 0) \<notin> dom (Map.empty :: (string \<times> int) \<rightharpoonup> real)
   \<and> (get_state (Str ''A''), 0) \<in> dom [(''A'', 0 :: int) \<mapsto> 1 / 10 :: real]"
  by (simp add: init_def learn_def Let_def get_state_def py_str_def q_get_def)

text \<open>
  C4, amended. With at least one action configured, \<open>learn\<close> returns, the keys afterwards
  are the keys before plus the written key (state, action), and every other key maps to
  what it mapped to before. A key of the next state is new only when it is the written
  key itself, that is when the next state equals the current state and the action is the
  one taken.
\<close>

theorem learn_frame:
  "actions a \<noteq> [] \<longrightarrow>
     (\<exists>a' e. learn a act ob reward terminated next_ob = Inr (a', e)
        \<and> dom (q_table a') = insert (get_state ob, act) (dom (q_table a))
        \<and> (\<forall>k. k \<noteq> (get_state ob, act) \<longrightarrow> q_table a' k = q_table a k)
        \<and> (\<forall>b. (get_state next_ob, b) \<in> dom (q_table a')
                \<and> (get_state next_ob, b) \<notin> dom (q_table a)
              \<longrightarrow> get_state next_ob = get_state ob \<and> b = act))"
proof
  assume ne: "actions a \<noteq> []"
  show "\<exists>a' e. learn a act ob reward terminated next_ob = Inr (a', e)
        \<and> dom (q_table a') = insert (get_state ob, act) (dom (q_table a))
        \<and> (\<forall>k. k \<noteq> (get_state ob, act) \<longrightarrow> q_table a' k = q_table a k)
        \<and> (\<forall>b. (get_state next_ob, b) \<in> dom (q_table a')
                \<and> (get_state next_ob, b) \<notin> dom (q_table a)
              \<longrightarrow> get_state next_ob = get_state ob \<and> b = act)"
    unfolding learn_Inr [OF ne] by (intro exI conjI) (rule refl, simp, simp, auto)
qed

theorem learn_frame_witness:
  "actions \<lparr>q_table = [(''B'', 1) \<mapsto> 10], learning_rate = 1 / 2, discount_factor = 1 / 2,
            exploration_rate = 0, actions = [0, 1]\<rparr> \<noteq> []
   \<and> (\<exists>a' e. learn \<lparr>q_table = [(''B'', 1) \<mapsto> 10], learning_rate = 1 / 2,
            discount_factor = 1 / 2, exploration_rate = 0, actions = [0, 1]\<rparr>
            1 (Str ''A'') 0 False (Str ''B'') = Inr (a', e)
        \<and> dom (q_table a') = {(''A'', 1), (''B'', 1)}
        \<and> q_table a' (''B'', 1) = Some 10
        \<and> q_table a' (''B'', 0) = None)"
proof -
  let ?a = "\<lparr>q_table = [(''B'', 1) \<mapsto> 10], learning_rate = 1 / 2,
            discount_factor = 1 / 2, exploration_rate = 0, actions = [0 :: int, 1]\<rparr>"
  have ne: "actions ?a \<noteq> []" by simp
  from learn_frame [of ?a 1 "Str ''A''" 0 False "Str ''B''"] ne
  obtain a' e where
    l: "learn ?a 1 (Str ''A'') 0 False (Str ''B'') = Inr (a', e)"
    and d: "dom (q_table a') = insert (get_state (Str ''A''), 1) (dom (q_table ?a))"
    and f: "\<forall>k. k \<noteq> (get_state (Str ''A''), 1) \<longrightarrow> q_table a' k = q_table ?a k"
    by blast
  have s: "get_state (Str ''A'') = ''A''" by (simp add: get_state_def py_str_def)
  have "dom (q_table a') = {(''A'', 1), (''B'', 1)}" using d by (simp add: s)
  moreover have "q_table a' (''B'', 1) = Some 10" using f by (simp add: s)
  moreover have "q_table a' (''B'', 0) = None" using f by (simp add: s)
  ultimately show ?thesis using l ne by blast
qed

subsection \<open>Actions outside the action list\<close>

text \<open>
  C6, as stated, fails: \<open>learn\<close> never compares its action with \<open>self.actions\<close>. On the
  agent as constructed, \<open>learn(7, "A", 1, False, "B")\<close> returns 0.1 and leaves the entry
  (A, 7) in the table.
\<close>

theorem learn_unknown_action_counterexample:
  "init [] = Inr \<lparr>q_table = Map.empty, learning_rate = 1 / 10, discount_factor = 9 / 10,
                   exploration_rate = 1 / 10, actions = [0, 1]\<rparr>
   \<and> 7 \<notin> set (actions \<lparr>q_table = Map.empty, learning_rate = 1 / 10, discount_factor = 9 / 10,
                   exploration_rate = 1 / 10, actions = [0, 1]\<rparr>)
   \<and> learn \<lparr>q_table = Map.empty, learning_rate = 1 / 10, discount_factor = 9 / 10,
             exploration_rate = 1 / 10, actions = [0, 1]\<rparr> 7 (Str ''A'') 1 False (Str ''B'')
       = Inr (\<lparr>q_table = [(''A'', 7) \<mapsto> 1 / 10], learning_rate = 1 / 10,
                discount_factor = 9 / 10, exploration_rate = 1 / 10, actions = [0, 1]\<rparr>, 1 / 10)"
  by (simp add: init_def learn_def Let_def get_state_def py_str_def q_get_def)

text \<open>
  C6, amended. With at least one action configured, \<open>learn\<close> called with an action that
  is not in the action list returns normally and stores the updated value under
  (state, action), as it does for a listed action.
\<close>

theorem learn_unknown_action_stored:
  "actions a \<noteq> [] \<and> act \<notin> set (actions a) \<longrightarrow>
     (\<exists>a' e. learn a act ob reward terminated next_ob = Inr (a', e)
        \<and> q_table a' (get_state ob, act)
            = Some ((1 - learning_rate a) * q_get (q_table a) (get_state ob, act)
                 + learning_rate a * (reward + discount_factor a
                     * Max ((\<lambda>b. q_get (q_table a) (get_state next_ob, b)) ` set (actions a)))))"
  by (simp add: learn_Inr)

theorem learn_unknown_action_stored_witness:
  "actions \<lparr>q_table = [(''B'', 1) \<mapsto> 10], learning_rate = 1 / 2, discount_factor = 1 / 2,
            exploration_rate = 0, actions = [0, 1]\<rparr> \<noteq> []
   \<and> 5 \<notin> set (actions \<lparr>q_table = [(''B'', 1) \<mapsto> 10], learning_rate = 1 / 2,
            discount_factor = 1 / 2, exploration_rate = 0, actions = [0, 1]\<rparr>)
   \<and> (\<exists>a' e. learn \<lparr>q_table = [(''B'', 1) \<mapsto> 10], learning_rate = 1 / 2,
            discount_factor = 1 / 2, exploration_rate = 0, actions = [0, 1]\<rparr>
            5 (Str ''A'') 0 False (Str ''B'') = Inr (a', e)
        \<and> q_table a' (''A'', 5) = Some (5 / 2))"
proof -
  let ?a = "\<lparr>q_table = [(''B'', 1) \<mapsto> 10], learning_rate = 1 / 2,
            discount_factor = 1 / 2, exploration_rate = 0, actions = [0 :: int, 1]\<rparr>"
  have h: "actions ?a \<noteq> [] \<and> 5 \<notin> set (actions ?a)" by simp
  from learn_unknown_action_stored [of ?a 5 "Str ''A''" 0 False "Str ''B''"] h
  obtain a' e where
    l: "learn ?a 5 (Str ''A'') 0 False (Str ''B'') = Inr (a', e)"
    and v: "q_table a' (get_state (Str ''A''), 5)
            = Some ((1 - learning_rate ?a) * q_get (q_table ?a) (get_state (Str ''A''), 5)
                 + learning_rate ?a * (0 + discount_factor ?a
                     * Max ((\<lambda>b. q_get (q_table ?a) (get_state (Str ''B''), b)) ` set (actions ?a))))"
    by blast
  have "q_table a' (''A'', 5) = Some (5 / 2)"
    using v by (simp add: get_state_def py_str_def q_get_def)
  with l h show ?thesis by blast
qed

subsection \<open>The key set over a run\<close>

lemma step_dom: "dom (q_table a) \<subseteq> dom (q_table (step a c))"
proof (cases c)
  case (CallAction ob e g)
  then show ?thesis by simp
next
  case (CallLearn act ob reward terminated next_ob)
  show ?thesis
  proof (cases "actions a = []")
    case True
    then show ?thesis using CallLearn by (simp add: learn_Inl)
  next
    case False
    then show ?thesis using CallLearn by (auto simp: learn_Inr)
  qed
qed

lemma run_dom: "dom (q_table a) \<subseteq> dom (q_table (run a cs))"
proof (induction cs arbitrary: a)
  case Nil
  then show ?case by simp
next
  case (Cons c cs)
  have "dom (q_table a) \<subseteq> dom (q_table (step a c))" by (rule step_dom)
  also have "\<dots> \<subseteq> dom (q_table (run (step a c) cs))" by (rule Cons.IH)
  finally show ?case by simp
qed

text \<open>
  C9. The table is empty at construction; \<open>action\<close> leaves the agent as it was; \<open>learn\<close>
  keeps every key; so along any sequence of calls the key set after a prefix is contained
  in the key set after any longer run.
\<close>

theorem table_keys_only_grow:
  "(\<exists>a0. init [] = Inr a0 \<and> dom (q_table a0) = {})
   \<and> step a (CallAction ob exploit_only g) = a
   \<and> dom (q_table a) \<subseteq> dom (q_table (step a (CallLearn act ob reward terminated next_ob)))
   \<and> dom (q_table (run a cs)) \<subseteq> dom (q_table (run a (cs @ ds)))"
proof -
  have "run a (cs @ ds) = run (run a cs) ds" for ds
    by (induction cs arbitrary: a) simp_all
  then show ?thesis
    by (simp add: init_def step_dom run_dom del: step.simps(2))
qed

subsection \<open>The state encoding\<close>

lemma py_eq_same_type_eq: "py_eq_val v w \<Longrightarrow> same_type v w \<Longrightarrow> v = w"
proof (induction v arbitrary: w)
  case (PyInt i)
  then show ?case by (cases w) simp_all
next
  case (PyBool b)
  then show ?case by (cases w) simp_all
next
  case PyNone
  then show ?case by (cases w) simp_all
next
  case (PyTuple vs)
  from PyTuple.prems obtain ws where w: "w = PyTuple ws" by (cases w) simp_all
  with PyTuple.prems have e: "list_all2 py_eq_val vs ws" and t: "list_all2 same_type vs ws"
    by simp_all
  have "list_all2 (=) vs ws"
  proof (rule list_all2_all_nthI)
    show "length vs = length ws" using e by (rule list_all2_lengthD)
  next
    fix n assume n: "n < length vs"
    then have "vs ! n \<in> set vs" by simp
    moreover have "py_eq_val (vs ! n) (ws ! n)" using e n by (rule list_all2_nthD)
    moreover have "same_type (vs ! n) (ws ! n)" using t n by (rule list_all2_nthD)
    ultimately show "vs ! n = ws ! n" by (rule PyTuple.IH)
  qed
  then show ?case by (simp add: w list_all2_eq)
qed

text \<open>
  C8, as stated for observations that compare equal with \<open>==\<close>, fails:
  \<open>(12, 5, False) == (12, 5, 0)\<close> holds in Python, and the two observations are encoded
  as the different keys \<open>(12, 5, False)\<close> and \<open>(12, 5, 0)\<close>.
\<close>

theorem get_state_equal_counterexample:
  "py_eq (Val (PyTuple [PyInt 12, PyInt 5, PyBool False])) (Val (PyTuple [PyInt 12, PyInt 5, PyInt 0]))
   \<and> get_state (Val (PyTuple [PyInt 12, PyInt 5, PyBool False])) = ''(12, 5, False)''
   \<and> get_state (Val (PyTuple [PyInt 12, PyInt 5, PyInt 0])) = ''(12, 5, 0)''
   \<and> get_state (Val (PyTuple [PyInt 12, PyInt 5, PyBool False]))
       \<noteq> get_state (Val (PyTuple [PyInt 12, PyInt 5, PyInt 0]))"
  by (simp add: get_state_def py_str_def int_str_def nat_str.simps digit_char_def)

lemma join_comma_Cons:
  "join_comma (r # rs) = r @ (case rs of [] \<Rightarrow> [] | _ \<Rightarrow> '', '' @ join_comma rs)"
  by (cases rs) simp_all

lemma join_comma_differ:
  "list_all2 py_eq_val vs ws \<Longrightarrow>
   (\<And>v w s t. v \<in> set vs \<Longrightarrow> py_eq_val v w \<Longrightarrow> \<not> same_type v w
       \<Longrightarrow> py_repr v @ s \<noteq> py_repr w @ t) \<Longrightarrow>
   \<not> list_all2 same_type vs ws \<Longrightarrow>
   join_comma (map py_repr vs) @ s \<noteq> join_comma (map py_repr ws) @ t"
proof (induction vs arbitrary: ws)
  case Nil
  then show ?case by simp
next
  case (Cons v vs)
  from Cons.prems(1) obtain w ws' where ws: "ws = w # ws'"
    and e: "py_eq_val v w" and es: "list_all2 py_eq_val vs ws'"
    by (cases ws) simp_all
  show ?case
  proof (cases "same_type v w")
    case True
    with e have vw: "v = w" by (rule py_eq_same_type_eq)
    from True Cons.prems(3) ws have nt: "\<not> list_all2 same_type vs ws'" by simp
    from es nt obtain v2 vs2 w2 ws2 where l: "vs = v2 # vs2" "ws' = w2 # ws2"
      by (cases vs; cases ws') simp_all
    have "join_comma (map py_repr vs) @ s \<noteq> join_comma (map py_repr ws') @ t"
      using es Cons.prems(2) nt by (intro Cons.IH) simp_all
    then show ?thesis by (simp add: ws vw l)
  next
    case False
    have "py_repr v @ s' \<noteq> py_repr w @ t'" for s' t'
      using e False by (intro Cons.prems(2)) simp_all
    then show ?thesis by (simp add: ws join_comma_Cons)
  qed
qed

lemma int_str_0_1: "int_str 0 = ''0''" "int_str 1 = ''1''"
  by (simp_all add: int_str_def nat_str.simps digit_char_def)

lemma int_bool_repr_differ:
  "int_str (if c then 1 else 0) @ s \<noteq> (if c then ''True'' else ''False'') @ t"
  by (cases c) (simp_all add: int_str_0_1)

lemma py_repr_differ:
  "py_eq_val v w \<Longrightarrow> \<not> same_type v w \<Longrightarrow> py_repr v @ s \<noteq> py_repr w @ t"
proof (induction v arbitrary: w s t)
  case (PyInt i)
  from PyInt obtain c where "w = PyBool c" "i = (if c then 1 else 0)"
    by (cases w) simp_all
  then show ?case using int_bool_repr_differ [of c s t] by simp
next
  case (PyBool b)
  from PyBool obtain j where "w = PyInt j" "j = (if b then 1 else 0)"
    by (cases w) auto
  then show ?case using int_bool_repr_differ [of b t s] by (simp add: neq_commute)
next
  case PyNone
  then show ?case by (cases w) simp_all
next
  case (PyTuple vs)
  from PyTuple.prems obtain ws where w: "w = PyTuple ws" by (cases w) simp_all
  with PyTuple.prems have e: "list_all2 py_eq_val vs ws"
    and nt: "\<not> list_all2 same_type vs ws" by simp_all
  have len: "length vs = length ws" using e by (rule list_all2_lengthD)
  show ?case
  proof (cases "\<exists>v. vs = [v]")
    case True
    then obtain v where v: "vs = [v]" by blast
    with len obtain x where x: "ws = [x]" by (cases ws) simp_all
    from e nt v x have "py_eq_val v x" "\<not> same_type v x" by simp_all
    then have "py_repr v @ '',)'' @ s \<noteq> py_repr x @ '',)'' @ t"
      using v by (intro PyTuple.IH) simp_all
    then show ?thesis by (simp add: w v x)
  next
    case False
    then have nv: "\<not> (\<exists>x. ws = [x])" using len by (cases vs; cases ws) auto
    have "join_comma (map py_repr vs) @ '')'' @ s \<noteq> join_comma (map py_repr ws) @ '')'' @ t"
      using e PyTuple.IH nt by (rule join_comma_differ)
    moreover have "py_repr (PyTuple vs) = ''('' @ join_comma (map py_repr vs) @ '')''"
    proof -
      from False have "vs = [] \<or> (\<exists>a b cs. vs = a # b # cs)"
        by (cases vs) (auto simp: neq_Nil_conv)
      then show ?thesis by auto
    qed
    moreover have "py_repr (PyTuple ws) = ''('' @ join_comma (map py_repr ws) @ '')''"
    proof -
      from nv have "ws = [] \<or> (\<exists>a b cs. ws = a # b # cs)"
        by (cases ws) (auto simp: neq_Nil_conv)
      then show ?thesis by auto
    qed
    ultimately show ?thesis by (simp add: w)
  qed
qed

text \<open>
  C8, amended. The encoding is \<open>str\<close> of the observation and nothing else. For observations
  built from integers, booleans, \<open>None\<close> and nested tuples of these, or plain strings: two
  observations that compare equal with \<open>==\<close> are encoded as the same key exactly when they
  have the same types, component by component. So equal observations of the same types
  always hit the same table key, and equal observations that differ in a position where one
  holds a boolean and the other an integer never do.
\<close>

theorem get_state_same_key_iff:
  "py_eq o1 o2 \<longrightarrow> (get_state o1 = get_state o2 \<longleftrightarrow> same_type_obs o1 o2)"
proof
  assume h: "py_eq o1 o2"
  show "get_state o1 = get_state o2 \<longleftrightarrow> same_type_obs o1 o2"
  proof (cases o1)
    case (Val v)
    with h obtain w where w: "o2 = Val w" and e: "py_eq_val v w" by (cases o2) simp_all
    show ?thesis
    proof (cases "same_type v w")
      case True
      with e have "v = w" by (rule py_eq_same_type_eq)
      with True show ?thesis by (simp add: Val w)
    next
      case False
      with e have "py_repr v @ [] \<noteq> py_repr w @ []" by (rule py_repr_differ)
      with False show ?thesis by (simp add: Val w get_state_def py_str_def)
    qed
  next
    case (Str s)
    with h show ?thesis by (cases o2) simp_all
  qed
qed

theorem get_state_same_key_iff_witness:
  "py_eq (Val (PyTuple [PyInt 12, PyInt 1, PyBool True])) (Val (PyTuple [PyInt 12, PyBool True, PyInt 1]))
   \<and> \<not> same_type_obs (Val (PyTuple [PyInt 12, PyInt 1, PyBool True]))
          (Val (PyTuple [PyInt 12, PyBool True, PyInt 1]))
   \<and> get_state (Val (PyTuple [PyInt 12, PyInt 1, PyBool True]))
       \<noteq> get_state (Val (PyTuple [PyInt 12, PyBool True, PyInt 1]))
   \<and> py_eq (Val (PyTuple [PyInt 21, PyInt 10, PyBool False])) (Val (PyTuple [PyInt 21, PyInt 10, PyBool False]))
   \<and> same_type_obs (Val (PyTuple [PyInt 21, PyInt 10, PyBool False]))
          (Val (PyTuple [PyInt 21, PyInt 10, PyBool False]))
   \<and> get_state (Val (PyTuple [PyInt 21, PyInt 10, PyBool False])) = ''(21, 10, False)''"
proof -
  have "get_state (Val (PyTuple [PyInt 12, PyInt 1, PyBool True]))
       \<noteq> get_state (Val (PyTuple [PyInt 12, PyBool True, PyInt 1]))"
    using get_state_same_key_iff [of "Val (PyTuple [PyInt 12, PyInt 1, PyBool True])"
           "Val (PyTuple [PyInt 12, PyBool True, PyInt 1])"]
    by simp
  moreover have "get_state (Val (PyTuple [PyInt 21, PyInt 10, PyBool False])) = ''(21, 10, False)''"
    by (simp add: get_state_def py_str_def int_str_def nat_str.simps digit_char_def)
  ultimately show ?thesis by simp
qed

text \<open>
  C10. The encoding is not injective: the integer 1 and the string \<open>1\<close> are unequal and
  share the key \<open>1\<close>. On the agent as constructed the greedy action for the string is 0;
  after one \<open>learn\<close> with action 1 and reward 1 on the integer, it is 1.
\<close>

theorem encoding_aliases:
  "\<not> py_eq (Val (PyInt 1)) (Str ''1'')
   \<and> get_state (Val (PyInt 1)) = get_state (Str ''1'')
   \<and> (\<exists>a0 a1 e. init [] = Inr a0
        \<and> action a0 (Str ''1'') True g = Inr 0
        \<and> learn a0 1 (Val (PyInt 1)) 1 False (Val (PyInt 1)) = Inr (a1, e)
        \<and> action a1 (Str ''1'') True g = Inr 1)"
proof -
  let ?a0 = "\<lparr>q_table = Map.empty, learning_rate = 1 / 10, discount_factor = 9 / 10,
              exploration_rate = 1 / 10, actions = [0 :: int, 1]\<rparr>"
  let ?a1 = "\<lparr>q_table = [(''1'', 1 :: int) \<mapsto> 1 / 10 :: real], learning_rate = 1 / 10,
              discount_factor = 9 / 10, exploration_rate = 1 / 10, actions = [0 :: int, 1]\<rparr>"
  have s: "get_state (Val (PyInt 1)) = ''1''"
    by (simp add: get_state_def py_str_def int_str_def nat_str.simps digit_char_def)
  have t: "get_state (Str ''1'') = ''1''"
    by (simp add: get_state_def py_str_def)
  have i: "init [] = Inr ?a0"
    by (simp add: init_def)
  have b: "action ?a0 (Str ''1'') True g = Inr 0"
    by (simp add: t action_def get_best_action_def q_get_def py_nth_def)
  have l: "learn ?a0 1 (Val (PyInt 1)) 1 False (Val (PyInt 1)) = Inr (?a1, 1 / 10)"
    by (simp add: s learn_def Let_def q_get_def)
  have c: "action ?a1 (Str ''1'') True g = Inr 1"
    by (simp add: t action_def get_best_action_def q_get_def py_nth_def)
  have "\<not> py_eq (Val (PyInt 1)) (Str ''1'')" by simp
  moreover have "get_state (Val (PyInt 1)) = get_state (Str ''1'')" by (simp add: s t)
  ultimately show ?thesis using i b l c by blast
qed

subsection \<open>Construction and the hyperparameters\<close>

lemma step_params:
  "learning_rate (step a c) = learning_rate a \<and> discount_factor (step a c) = discount_factor a
   \<and> exploration_rate (step a c) = exploration_rate a \<and> actions (step a c) = actions a"
proof (cases c)
  case (CallAction ob e g)
  then show ?thesis by simp
next
  case (CallLearn act ob reward terminated next_ob)
  show ?thesis
  proof (cases "actions a = []")
    case True
    then show ?thesis using CallLearn by (simp add: learn_Inl)
  next
    case False
    then show ?thesis using CallLearn by (simp add: learn_Inr)
  qed
qed

lemma run_params:
  "learning_rate (run a cs) = learning_rate a \<and> discount_factor (run a cs) = discount_factor a
   \<and> exploration_rate (run a cs) = exploration_rate a \<and> actions (run a cs) = actions a"
  by (induction cs arbitrary: a) (simp_all add: step_params)

text \<open>
  C5, as stated, fails: the constructor takes no configuration option. Passing
  \<open>learning_rate=0.5\<close>, a value inside (0, 1], raises TypeError.
\<close>

theorem init_rejects_options_counterexample:
  "init [(''learning_rate'', Num (1 / 2))] = Inl TypeError
   \<and> 0 < (1 / 2 :: real) \<and> (1 / 2 :: real) \<le> 1"
  by (simp add: init_def)

text \<open>
  C5, amended. Construction takes no option: any call that passes one raises TypeError,
  and the call without arguments gives the empty table with learning rate 0.1, discount
  factor 0.9, exploration rate 0.1 and actions 0 and 1, all inside their valid ranges.
  No sequence of \<open>action\<close> and \<open>learn\<close> calls changes the hyperparameters or the action
  list.
\<close>

theorem init_fixed_configuration:
  "init kwargs =
     (if kwargs = [] then
        Inr \<lparr>q_table = Map.empty, learning_rate = 1 / 10, discount_factor = 9 / 10,
             exploration_rate = 1 / 10, actions = [0, 1]\<rparr>
      else Inl TypeError)
   \<and> (\<exists>a0. init [] = Inr a0
        \<and> 0 < learning_rate a0 \<and> learning_rate a0 \<le> 1
        \<and> 0 \<le> discount_factor a0 \<and> discount_factor a0 \<le> 1
        \<and> 0 \<le> exploration_rate a0 \<and> exploration_rate a0 \<le> 1)
   \<and> learning_rate (run a cs) = learning_rate a
   \<and> discount_factor (run a cs) = discount_factor a
   \<and> exploration_rate (run a cs) = exploration_rate a
   \<and> actions (run a cs) = actions a"
  by (simp add: init_def run_params)

subsection \<open>Repeated updates with reward 1 and no discounting\<close>


lemma learn_rounded_id: "learn_rounded (\<lambda>x. x) = learn"
  by (intro ext) (simp add: learn_rounded_def learn_def)









end
